theory Spec2Isabelle
  imports Main "HOL-Library.Word"
begin

section \<open>go_sign: the signing engine and its HTTP gateway\<close>

text \<open>
  A shallow embedding of the two files of package \<open>xhs\<close>: the signing engine
  (\<open>NewSigner\<close>, \<open>Sign\<close>, \<open>Close\<close>) and the gateway (\<open>RegisterRoutes\<close>).
  Everything the package calls outside itself (playwright-go, \<open>os.Stat\<close>,
  \<open>json.Marshal\<close>, gin's \<open>ShouldBindJSON\<close>) is a field of the record \<open>env\<close>: the
  answer the outside world gives to that call. Every function of the model returns,
  beside its Go result, the list of the calls it made on the browser, in order.
  Calls to \<open>slog\<close> and the unused \<open>context.Context\<close> arguments are left out.
\<close>

subsection \<open>Values crossing the scripting bridge\<close>

text \<open>
  A Go value of type \<open>any\<close> as \<open>page.Evaluate\<close> returns it and as JSON decoding
  produces it. A \<open>float64\<close> is kept as its 64 bits. A \<open>map[string]any\<close> is an
  association list read with \<open>map_of\<close>.
\<close>

datatype go_any =
    ANil
  | ABool bool
  | AInt int
  | AFloat "64 word"
  | AString string
  | ASlice "go_any list"
  | AMap "(string \<times> go_any) list"

subsection \<open>Errors\<close>

text \<open>
  \<open>External\<close> is an error made outside the package, with its message;
  \<open>ErrorsNew m\<close> is \<open>errors.New(m)\<close>; \<open>Errorf p e\<close> is \<open>fmt.Errorf(p + "%w", e)\<close>,
  where \<open>p\<close> is the text of the format before the verb.
\<close>

datatype error =
    External string
  | ErrorsNew string
  | Errorf string error

fun Error :: "error \<Rightarrow> string" where
  "Error (External m) = m"
| "Error (ErrorsNew m) = m"
| "Error (Errorf p e) = p @ Error e"

text \<open>
  A call either returns or panics (a nil pointer or nil interface is dereferenced).
\<close>

datatype 'a outcome = Panic | Return 'a

subsection \<open>The message literals of the source\<close>

text \<open>
  The literals are Chinese; a Go string is its UTF-8 bytes, written out here. Each
  definition names the source line of the literal and gives its meaning.
\<close>

text \<open>Part_000 line 18: parameter parsing failed.\<close>

definition msg_bind_failed :: string where
  "msg_bind_failed =
     [CHR 0xE5, CHR 0x8F, CHR 0x82, CHR 0xE6, CHR 0x95, CHR 0xB0, CHR 0xE8, CHR 0xA7, CHR 0xA3, CHR 0xE6, CHR 0x9E, CHR 0x90, CHR 0xE5, CHR 0xA4, CHR 0xB1, CHR 0xE8, CHR 0xB4, CHR 0xA5]
     @ '': ''"

text \<open>Part_000 line 26: signing failed.\<close>

definition msg_sign_failed :: string where
  "msg_sign_failed =
     [CHR 0xE7, CHR 0xAD, CHR 0xBE, CHR 0xE5, CHR 0x90, CHR 0x8D, CHR 0xE5, CHR 0xA4, CHR 0xB1, CHR 0xE8, CHR 0xB4, CHR 0xA5]
     @ '': ''"

text \<open>Line 71: starting Playwright failed.\<close>

definition msg_run_failed :: string where
  "msg_run_failed =
     [CHR 0xE5, CHR 0x90, CHR 0xAF, CHR 0xE5, CHR 0x8A, CHR 0xA8]
     @ '' Playwright ''
     @ [CHR 0xE5, CHR 0xA4, CHR 0xB1, CHR 0xE8, CHR 0xB4, CHR 0xA5]
     @ '': ''"

text \<open>Line 80: starting Chromium failed.\<close>

definition msg_launch_failed :: string where
  "msg_launch_failed =
     [CHR 0xE5, CHR 0x90, CHR 0xAF, CHR 0xE5, CHR 0x8A, CHR 0xA8]
     @ '' Chromium ''
     @ [CHR 0xE5, CHR 0xA4, CHR 0xB1, CHR 0xE8, CHR 0xB4, CHR 0xA5]
     @ '': ''"

text \<open>Line 86: creating the browser context failed.\<close>

definition msg_context_failed :: string where
  "msg_context_failed =
     [CHR 0xE5, CHR 0x88, CHR 0x9B, CHR 0xE5, CHR 0xBB, CHR 0xBA, CHR 0xE6, CHR 0xB5, CHR 0x8F, CHR 0xE8, CHR 0xA7, CHR 0x88, CHR 0xE5, CHR 0x99, CHR 0xA8, CHR 0xE4, CHR 0xB8, CHR 0x8A, CHR 0xE4, CHR 0xB8, CHR 0x8B, CHR 0xE6, CHR 0x96, CHR 0x87, CHR 0xE5, CHR 0xA4, CHR 0xB1, CHR 0xE8, CHR 0xB4, CHR 0xA5]
     @ '': ''"

text \<open>Line 92: the stealth.js file does not exist.\<close>

definition msg_stealth_missing :: string where
  "msg_stealth_missing =
     ''stealth.js ''
     @ [CHR 0xE6, CHR 0x96, CHR 0x87, CHR 0xE4, CHR 0xBB, CHR 0xB6, CHR 0xE4, CHR 0xB8, CHR 0x8D, CHR 0xE5, CHR 0xAD, CHR 0x98, CHR 0xE5, CHR 0x9C, CHR 0xA8]
     @ '': ''"

text \<open>Line 101: injecting stealth.js failed.\<close>

definition msg_inject_failed :: string where
  "msg_inject_failed =
     [CHR 0xE6, CHR 0xB3, CHR 0xA8, CHR 0xE5, CHR 0x85, CHR 0xA5]
     @ '' stealth.js ''
     @ [CHR 0xE5, CHR 0xA4, CHR 0xB1, CHR 0xE8, CHR 0xB4, CHR 0xA5]
     @ '': ''"

text \<open>Line 108: creating the page failed.\<close>

definition msg_newpage_failed :: string where
  "msg_newpage_failed =
     [CHR 0xE6, CHR 0x96, CHR 0xB0, CHR 0xE5, CHR 0xBB, CHR 0xBA, CHR 0xE9, CHR 0xA1, CHR 0xB5, CHR 0xE9, CHR 0x9D, CHR 0xA2, CHR 0xE5, CHR 0xA4, CHR 0xB1, CHR 0xE8, CHR 0xB4, CHR 0xA5]
     @ '': ''"

text \<open>Line 114: navigating to the home page failed.\<close>

definition msg_goto_failed :: string where
  "msg_goto_failed =
     [CHR 0xE8, CHR 0xB7, CHR 0xB3, CHR 0xE8, CHR 0xBD, CHR 0xAC, CHR 0xE5, CHR 0xB0, CHR 0x8F, CHR 0xE7, CHR 0xBA, CHR 0xA2, CHR 0xE4, CHR 0xB9, CHR 0xA6, CHR 0xE9, CHR 0xA6, CHR 0x96, CHR 0xE9, CHR 0xA1, CHR 0xB5, CHR 0xE5, CHR 0xA4, CHR 0xB1, CHR 0xE8, CHR 0xB4, CHR 0xA5]
     @ '': ''"

text \<open>Line 155: page not initialised.\<close>

definition msg_page_uninit :: string where
  "msg_page_uninit =
     [CHR 0xE9, CHR 0xA1, CHR 0xB5, CHR 0xE9, CHR 0x9D, CHR 0xA2, CHR 0xE6, CHR 0x9C, CHR 0xAA, CHR 0xE5, CHR 0x88, CHR 0x9D, CHR 0xE5, CHR 0xA7, CHR 0x8B, CHR 0xE5, CHR 0x8C, CHR 0x96]"

text \<open>Line 163: checking window._webmsxyw failed.\<close>

definition msg_probe_failed :: string where
  "msg_probe_failed =
     [CHR 0xE6, CHR 0xA3, CHR 0x80, CHR 0xE6, CHR 0x9F, CHR 0xA5]
     @ '' window._webmsxyw ''
     @ [CHR 0xE5, CHR 0xA4, CHR 0xB1, CHR 0xE8, CHR 0xB4, CHR 0xA5]
     @ '': ''"

text \<open>Line 167: window._webmsxyw undefined, or the signing JS not injected.\<close>

definition msg_fn_absent :: string where
  "msg_fn_absent =
     ''window._webmsxyw ''
     @ [CHR 0xE6, CHR 0x9C, CHR 0xAA, CHR 0xE5, CHR 0xAE, CHR 0x9A, CHR 0xE4, CHR 0xB9, CHR 0x89, CHR 0xE6, CHR 0x88, CHR 0x96, CHR 0xE6, CHR 0x9C, CHR 0xAA, CHR 0xE6, CHR 0xB3, CHR 0xA8, CHR 0xE5, CHR 0x85, CHR 0xA5, CHR 0xE7, CHR 0xAD, CHR 0xBE, CHR 0xE5, CHR 0x90, CHR 0x8D]
     @ '' JS''"

text \<open>Line 174: serialising the data parameter failed.\<close>

definition msg_marshal_failed :: string where
  "msg_marshal_failed =
     ''data ''
     @ [CHR 0xE5, CHR 0x8F, CHR 0x82, CHR 0xE6, CHR 0x95, CHR 0xB0, CHR 0xE5, CHR 0xBA, CHR 0x8F, CHR 0xE5, CHR 0x88, CHR 0x97, CHR 0xE5, CHR 0x8C, CHR 0x96, CHR 0xE5, CHR 0xA4, CHR 0xB1, CHR 0xE8, CHR 0xB4, CHR 0xA5]
     @ '': ''"

text \<open>Line 182: running the signing JS failed.\<close>

definition msg_eval_failed :: string where
  "msg_eval_failed =
     [CHR 0xE6, CHR 0x89, CHR 0xA7, CHR 0xE8, CHR 0xA1, CHR 0x8C, CHR 0xE7, CHR 0xAD, CHR 0xBE, CHR 0xE5, CHR 0x90, CHR 0x8D]
     @ '' JS ''
     @ [CHR 0xE5, CHR 0xA4, CHR 0xB1, CHR 0xE8, CHR 0xB4, CHR 0xA5]
     @ '': ''"

text \<open>Line 187: type assertion on the signing result failed.\<close>

definition msg_assert_failed :: string where
  "msg_assert_failed =
     [CHR 0xE7, CHR 0xAD, CHR 0xBE, CHR 0xE5, CHR 0x90, CHR 0x8D, CHR 0xE7, CHR 0xBB, CHR 0x93, CHR 0xE6, CHR 0x9E, CHR 0x9C, CHR 0xE7, CHR 0xB1, CHR 0xBB, CHR 0xE5, CHR 0x9E, CHR 0x8B, CHR 0xE6, CHR 0x96, CHR 0xAD, CHR 0xE8, CHR 0xA8, CHR 0x80, CHR 0xE5, CHR 0xA4, CHR 0xB1, CHR 0xE8, CHR 0xB4, CHR 0xA5]"

text \<open>Line 203: closing the page failed.\<close>

definition msg_close_page :: string where
  "msg_close_page =
     [CHR 0xE5, CHR 0x85, CHR 0xB3, CHR 0xE9, CHR 0x97, CHR 0xAD, CHR 0xE9, CHR 0xA1, CHR 0xB5, CHR 0xE9, CHR 0x9D, CHR 0xA2, CHR 0xE5, CHR 0xA4, CHR 0xB1, CHR 0xE8, CHR 0xB4, CHR 0xA5]
     @ '': ''"

text \<open>Line 211: closing the browser context failed.\<close>

definition msg_close_context :: string where
  "msg_close_context =
     [CHR 0xE5, CHR 0x85, CHR 0xB3, CHR 0xE9, CHR 0x97, CHR 0xAD, CHR 0xE6, CHR 0xB5, CHR 0x8F, CHR 0xE8, CHR 0xA7, CHR 0x88, CHR 0xE5, CHR 0x99, CHR 0xA8, CHR 0xE4, CHR 0xB8, CHR 0x8A, CHR 0xE4, CHR 0xB8, CHR 0x8B, CHR 0xE6, CHR 0x96, CHR 0x87, CHR 0xE5, CHR 0xA4, CHR 0xB1, CHR 0xE8, CHR 0xB4, CHR 0xA5]
     @ '': ''"

text \<open>Line 219: closing the browser failed.\<close>

definition msg_close_browser :: string where
  "msg_close_browser =
     [CHR 0xE5, CHR 0x85, CHR 0xB3, CHR 0xE9, CHR 0x97, CHR 0xAD, CHR 0xE6, CHR 0xB5, CHR 0x8F, CHR 0xE8, CHR 0xA7, CHR 0x88, CHR 0xE5, CHR 0x99, CHR 0xA8, CHR 0xE5, CHR 0xA4, CHR 0xB1, CHR 0xE8, CHR 0xB4, CHR 0xA5]
     @ '': ''"

text \<open>Line 227: closing Playwright failed.\<close>

definition msg_close_pw :: string where
  "msg_close_pw =
     [CHR 0xE5, CHR 0x85, CHR 0xB3, CHR 0xE9, CHR 0x97, CHR 0xAD]
     @ '' Playwright ''
     @ [CHR 0xE5, CHR 0xA4, CHR 0xB1, CHR 0xE8, CHR 0xB4, CHR 0xA5]
     @ '': ''"

subsection \<open>Handles, browser calls and the outside world\<close>

text \<open>
  A handle of playwright-go is a number; a nil pointer or nil interface is \<open>None\<close>.
\<close>

type_synonym pw_handle = nat
type_synonym browser_handle = nat
type_synonym context_handle = nat
type_synonym page_handle = nat

text \<open>One call on the browser-automation library, with its receiver and arguments.\<close>

datatype event =
    PlaywrightRun
  | ChromiumLaunch pw_handle
  | BrowserNewContext browser_handle
  | ContextAddInitScript context_handle string
  | ContextNewPage context_handle
  | PageGoto page_handle string
  | ContextCookies context_handle
  | PageEvaluate page_handle string go_any
  | PageClose page_handle
  | ContextClose context_handle
  | BrowserClose browser_handle
  | PlaywrightStop pw_handle

text \<open>The structs \<open>SignParams\<close> (lines 137 to 142) and \<open>SignResult\<close> (145 to 148).\<close>

record SignParams =
  URI :: string
  Data :: go_any
  A1 :: string
  WebSession :: string

record SignResult =
  XS :: string
  XT :: string

text \<open>
  The answers of the outside world. A Go call returning \<open>(T, error)\<close> answers
  \<open>Inr\<close> a value or \<open>Inl\<close> an error (playwright-go returns a nil handle beside an
  error); a call returning only \<open>error\<close> answers \<open>None\<close> for nil.
  \<open>gin_ShouldBindJSON\<close> decodes a request body into a \<open>SignParams\<close>.
\<close>

record env =
  playwright_Run :: "error + pw_handle"
  chromium_Launch :: "pw_handle \<Rightarrow> error + browser_handle"
  browser_NewContext :: "browser_handle \<Rightarrow> error + context_handle"
  os_Stat :: "string \<Rightarrow> error option"
  context_AddInitScript :: "context_handle \<Rightarrow> string \<Rightarrow> error option"
  context_NewPage :: "context_handle \<Rightarrow> error + page_handle"
  page_Goto :: "page_handle \<Rightarrow> string \<Rightarrow> error option"
  context_Cookies :: "context_handle \<Rightarrow> error + (string \<times> string) list"
  page_Evaluate :: "page_handle \<Rightarrow> string \<Rightarrow> go_any \<Rightarrow> error + go_any"
  json_Marshal :: "go_any \<Rightarrow> error + string"
  page_Close :: "page_handle \<Rightarrow> error option"
  context_Close :: "context_handle \<Rightarrow> error option"
  browser_Close :: "browser_handle \<Rightarrow> error option"
  playwright_Stop :: "pw_handle \<Rightarrow> error option"
  gin_ShouldBindJSON :: "string \<Rightarrow> error + SignParams"

subsection \<open>The engine session\<close>

text \<open>
  The struct \<open>Signer\<close> (lines 49 to 57), field by field. \<open>initOnce\<close> is the
  \<open>sync.Once\<close>: its flag, set once \<open>Do\<close> has run its function. The struct has no
  mutex. The field \<open>context\<close> is written \<open>context'\<close>, the word being reserved.
\<close>

record Signer =
  pw :: "pw_handle option"
  browser :: "browser_handle option"
  context' :: "context_handle option"
  page :: "page_handle option"
  stealthJS :: string
  initOnce :: bool
  initErr :: "error option"

text \<open>The zero value \<open>var s Signer\<close> of line 62.\<close>

definition zero_Signer :: Signer where
  "zero_Signer =
     \<lparr>pw = None, browser = None, context' = None, page = None,
      stealthJS = [], initOnce = False, initErr = None\<rparr>"

subsection \<open>NewSigner\<close>

definition home_url :: string where
  "home_url = ''https://www.xiaohongshu.com''"

text \<open>
  The function passed to \<open>s.initOnce.Do\<close> (lines 65 to 129): the stages in order,
  each returning at its first error with \<open>initErr\<close> set. An assignment
  \<open>s.x, err = f()\<close> stores the nil handle when \<open>f\<close> fails. The cookies read at
  line 119 are only logged.
\<close>

definition init_body :: "env \<Rightarrow> string \<Rightarrow> Signer \<Rightarrow> Signer \<times> event list" where
  "init_body E stealthJSPath s0 =
    (let s1 = s0\<lparr>stealthJS := stealthJSPath\<rparr> in
     case playwright_Run E of
       Inl err \<Rightarrow>
         (s1\<lparr>pw := None, initErr := Some (Errorf msg_run_failed err)\<rparr>, [PlaywrightRun])
     | Inr p \<Rightarrow>
        (let s2 = s1\<lparr>pw := Some p\<rparr>; t2 = [PlaywrightRun, ChromiumLaunch p] in
         case chromium_Launch E p of
           Inl err \<Rightarrow>
             (s2\<lparr>browser := None, initErr := Some (Errorf msg_launch_failed err)\<rparr>, t2)
         | Inr b \<Rightarrow>
            (let s3 = s2\<lparr>browser := Some b\<rparr>; t3 = t2 @ [BrowserNewContext b] in
             case browser_NewContext E b of
               Inl err \<Rightarrow>
                 (s3\<lparr>context' := None, initErr := Some (Errorf msg_context_failed err)\<rparr>, t3)
             | Inr c \<Rightarrow>
                (let s4 = s3\<lparr>context' := Some c\<rparr> in
                 case os_Stat E stealthJSPath of
                   Some err \<Rightarrow>
                     (s4\<lparr>initErr := Some (Errorf msg_stealth_missing err)\<rparr>, t3)
                 | None \<Rightarrow>
                    (let t5 = t3 @ [ContextAddInitScript c stealthJSPath] in
                     case context_AddInitScript E c stealthJSPath of
                       Some err \<Rightarrow>
                         (s4\<lparr>initErr := Some (Errorf msg_inject_failed err)\<rparr>, t5)
                     | None \<Rightarrow>
                        (let t6 = t5 @ [ContextNewPage c] in
                         case context_NewPage E c of
                           Inl err \<Rightarrow>
                             (s4\<lparr>page := None,
                                 initErr := Some (Errorf msg_newpage_failed err)\<rparr>, t6)
                         | Inr g \<Rightarrow>
                            (let s6 = s4\<lparr>page := Some g\<rparr>;
                                 t7 = t6 @ [PageGoto g home_url] in
                             case page_Goto E g home_url of
                               Some err \<Rightarrow>
                                 (s6\<lparr>initErr := Some (Errorf msg_goto_failed err)\<rparr>, t7)
                             | None \<Rightarrow> (s6, t7 @ [ContextCookies c]))))))))"

text \<open>
  \<open>sync.Once.Do\<close>: the function runs when the flag is not yet set, and the flag is
  set afterwards.
\<close>

definition once_Do :: "(Signer \<Rightarrow> Signer \<times> event list) \<Rightarrow> Signer \<Rightarrow> Signer \<times> event list" where
  "once_Do f s =
     (if initOnce s then (s, [])
      else (case f s of (s', t) \<Rightarrow> (s'\<lparr>initOnce := True\<rparr>, t)))"

text \<open>
  \<open>NewSigner\<close> (lines 61 to 134). The Go result \<open>(*Signer, error)\<close> is a pair of
  options: \<open>(nil, s.initErr)\<close> at line 131 and \<open>(&s, nil)\<close> at line 133.
\<close>

definition NewSigner :: "env \<Rightarrow> string \<Rightarrow> (Signer option \<times> error option) \<times> event list" where
  "NewSigner E stealthJSPath =
     (case once_Do (init_body E stealthJSPath) zero_Signer of
        (s, t) \<Rightarrow>
          (if initErr s \<noteq> None then ((None, initErr s), t) else ((Some s, None), t)))"

subsection \<open>Sign\<close>

definition probe_js :: string where
  "probe_js =
     ''() => typeof window._webmsxyw === '' @ [CHR 0x27] @ ''function'' @ [CHR 0x27]"

definition sign_js :: string where
  "sign_js = ''([url, dataStr]) => window._webmsxyw(url, JSON.parse(dataStr))''"

text \<open>
  Lines 189 and 190: \<open>v, _ := m[key].(string)\<close>. The second result of the type
  assertion is discarded, so a missing key or a value of another type gives the empty
  string.
\<close>

definition string_field :: "(string \<times> go_any) list \<Rightarrow> string \<Rightarrow> string" where
  "string_field m k = (case map_of m k of Some (AString v) \<Rightarrow> v | _ \<Rightarrow> [])"

text \<open>
  \<open>Sign\<close> (lines 152 to 193) on the receiver \<open>s\<close>, a pointer: reading \<open>s.page\<close>
  through a nil pointer panics. The result \<open>(*SignResult, error)\<close> is \<open>Inr\<close> the
  result or \<open>Inl\<close> the error, since each return statement has exactly one of them.
\<close>

definition Sign ::
  "env \<Rightarrow> Signer option \<Rightarrow> SignParams \<Rightarrow> (error + SignResult) outcome \<times> event list" where
  "Sign E sp params =
    (case sp of
       None \<Rightarrow> (Panic, [])
     | Some s \<Rightarrow>
        (case page s of
           None \<Rightarrow> (Return (Inl (ErrorsNew msg_page_uninit)), [])
         | Some g \<Rightarrow>
            (let t1 = [PageEvaluate g probe_js ANil] in
             case page_Evaluate E g probe_js ANil of
               Inl err \<Rightarrow> (Return (Inl (Errorf msg_probe_failed err)), t1)
             | Inr exists \<Rightarrow>
                 if exists \<noteq> ABool True
                 then (Return (Inl (ErrorsNew msg_fn_absent)), t1)
                 else
                  (case json_Marshal E (Data params) of
                     Inl err \<Rightarrow> (Return (Inl (Errorf msg_marshal_failed err)), t1)
                   | Inr dataJSON \<Rightarrow>
                      (let arg = ASlice [AString (URI params), AString dataJSON];
                           t2 = t1 @ [PageEvaluate g sign_js arg] in
                       case page_Evaluate E g sign_js arg of
                         Inl err \<Rightarrow> (Return (Inl (Errorf msg_eval_failed err)), t2)
                       | Inr res \<Rightarrow>
                          (case res of
                             AMap m \<Rightarrow>
                               (Return (Inr \<lparr>XS = string_field m ''X-s'',
                                             XT = string_field m ''X-t''\<rparr>), t2)
                           | _ \<Rightarrow> (Return (Inl (ErrorsNew msg_assert_failed)), t2)))))))"

subsection \<open>Close\<close>

text \<open>
  A method called on a handle: on a nil handle the call panics, otherwise it answers
  and the call is recorded.
\<close>

definition invoke :: "'h option \<Rightarrow> ('h \<Rightarrow> 'r) \<Rightarrow> ('h \<Rightarrow> event) \<Rightarrow> ('r \<times> event) outcome" where
  "invoke h f ev = (case h of None \<Rightarrow> Panic | Some x \<Rightarrow> Return (f x, ev x))"

text \<open>
  One of the four blocks of \<open>Close\<close>, on the state \<open>(firstErr, calls so far)\<close>:
  \<open>if h != nil { if err := h.Close(); err != nil { if firstErr == nil {
  firstErr = fmt.Errorf(msg, err) } } }\<close>.
\<close>

definition release ::
  "'h option \<Rightarrow> ('h \<Rightarrow> error option) \<Rightarrow> ('h \<Rightarrow> event) \<Rightarrow> string \<Rightarrow>
   (error option \<times> event list) outcome \<Rightarrow> (error option \<times> event list) outcome" where
  "release h closef ev msg st =
    (case st of
       Panic \<Rightarrow> Panic
     | Return (firstErr, t) \<Rightarrow>
         if h \<noteq> None then
           (case invoke h closef ev of
              Panic \<Rightarrow> Panic
            | Return (Some err, e) \<Rightarrow>
                Return (if firstErr = None then Some (Errorf msg err) else firstErr, t @ [e])
            | Return (None, e) \<Rightarrow> Return (firstErr, t @ [e]))
         else Return (firstErr, t))"

text \<open>
  \<open>Close\<close> (lines 197 to 232) on the receiver \<open>s\<close>, a pointer. It returns
  \<open>firstErr\<close>; the model returns the calls made beside it.
\<close>

definition Close :: "env \<Rightarrow> Signer option \<Rightarrow> (error option \<times> event list) outcome" where
  "Close E sp =
    (case sp of
       None \<Rightarrow> Panic
     | Some s \<Rightarrow>
        (let st0 = Return (None, []);
             st1 = release (page s) (page_Close E) PageClose msg_close_page st0;
             st2 = release (context' s) (context_Close E) ContextClose msg_close_context st1;
             st3 = release (browser s) (browser_Close E) BrowserClose msg_close_browser st2;
             st4 = release (pw s) (playwright_Stop E) PlaywrightStop msg_close_pw st3
         in st4))"

subsection \<open>The gateway\<close>

record response =
  status :: nat
  body :: go_any

definition StatusOK :: nat where "StatusOK = 200"
definition StatusBadRequest :: nat where "StatusBadRequest = 400"
definition StatusInternalServerError :: nat where "StatusInternalServerError = 500"

text \<open>
  \<open>c.JSON\<close> of a \<open>SignResult\<close>: the JSON object named by the struct tags of lines
  146 and 147.
\<close>

definition SignResult_json :: "SignResult \<Rightarrow> go_any" where
  "SignResult_json res = AMap [(''x-s'', AString (XS res)), (''x-t'', AString (XT res))]"

text \<open>
  The handler of lines 14 to 31, on the raw request body. A panic of \<open>Sign\<close> leaves
  the handler.
\<close>

definition sign_handler :: "env \<Rightarrow> Signer option \<Rightarrow> string \<Rightarrow> response outcome \<times> event list" where
  "sign_handler E signer raw =
    (case gin_ShouldBindJSON E raw of
       Inl err \<Rightarrow>
         (Return \<lparr>status = StatusBadRequest,
                  body = AMap [(''error'', AString (msg_bind_failed @ Error err))]\<rparr>, [])
     | Inr req \<Rightarrow>
        (case Sign E signer req of
           (Panic, t) \<Rightarrow> (Panic, t)
         | (Return (Inl err), t) \<Rightarrow>
             (Return \<lparr>status = StatusInternalServerError,
                      body = AMap [(''error'', AString (msg_sign_failed @ Error err))]\<rparr>, t)
         | (Return (Inr res), t) \<Rightarrow>
             (Return \<lparr>status = StatusOK, body = SignResult_json res\<rparr>, t)))"

text \<open>\<open>RegisterRoutes\<close> (lines 13 to 32): the route table, method and path to handler.\<close>

definition RegisterRoutes ::
  "env \<Rightarrow> Signer option \<Rightarrow> string \<times> string \<rightharpoonup> (string \<Rightarrow> response outcome \<times> event list)" where
  "RegisterRoutes E signer = [(''POST'', ''/sign'') \<mapsto> sign_handler E signer]"

subsection \<open>Several calls\<close>

text \<open>
  Calls to \<open>NewSigner\<close> made one after another, each with the outside world as it
  is when the call is made: the results in order, and all the browser calls in order.
\<close>

fun NewSigner_calls ::
  "(env \<times> string) list \<Rightarrow> (Signer option \<times> error option) list \<times> event list" where
  "NewSigner_calls [] = ([], [])"
| "NewSigner_calls ((E, stealthJSPath) # cs) =
     (case NewSigner E stealthJSPath of
        (r, t) \<Rightarrow> (case NewSigner_calls cs of (rs, ts) \<Rightarrow> (r # rs, t @ ts)))"

text \<open>The number of launch sequences begun: the calls of \<open>playwright.Run\<close>.\<close>

definition launches :: "event list \<Rightarrow> nat" where
  "launches t = count_list t PlaywrightRun"

text \<open>
  Two goroutines calling \<open>Sign\<close> on one \<open>Signer\<close>. The struct holds no lock and
  \<open>Sign\<close> acquires none, so nothing orders the browser calls of one goroutine
  against those of the other: the page may see any interleaving of the two calls'
  own sequences. \<open>tag i\<close> marks the browser calls of goroutine \<open>i\<close>.
\<close>

definition tag :: "nat \<Rightarrow> event list \<Rightarrow> (nat \<times> event) list" where
  "tag i t = map (Pair i) t"

definition concurrent_logs ::
  "env \<Rightarrow> Signer option \<Rightarrow> SignParams \<Rightarrow> SignParams \<Rightarrow> (nat \<times> event) list set" where
  "concurrent_logs E sp p q =
     shuffles (tag 0 (snd (Sign E sp p))) (tag 1 (snd (Sign E sp q)))"

text \<open>
  A log in which no call is in flight while another is: the browser calls of each
  goroutine form one block, so no goroutine appears again after another has.
\<close>

definition serialized :: "(nat \<times> event) list \<Rightarrow> bool" where
  "serialized log = distinct (remdups_adj (map fst log))"

subsection \<open>What Close is expected to do\<close>

text \<open>The first error of a list of results, nil when there is none.\<close>

fun first_error :: "error option list \<Rightarrow> error option" where
  "first_error [] = None"
| "first_error (Some e # rest) = Some e"
| "first_error (None # rest) = first_error rest"

text \<open>The release calls on the handles that are not nil: page, context, browser, runtime.\<close>

definition released :: "Signer \<Rightarrow> event list" where
  "released s =
     (case page s of None \<Rightarrow> [] | Some g \<Rightarrow> [PageClose g])
     @ (case context' s of None \<Rightarrow> [] | Some c \<Rightarrow> [ContextClose c])
     @ (case browser s of None \<Rightarrow> [] | Some b \<Rightarrow> [BrowserClose b])
     @ (case pw s of None \<Rightarrow> [] | Some p \<Rightarrow> [PlaywrightStop p])"

subsection \<open>Concrete sessions\<close>

text \<open>
  An outside world in which every call succeeds and the in-page function answers
  \<open>{"X-s": "abc", "X-t": "123"}\<close>; an empty request body fails to decode.
\<close>

definition ok_env :: env where
  "ok_env =
     \<lparr>playwright_Run = Inr 1,
      chromium_Launch = (\<lambda>p. Inr 2),
      browser_NewContext = (\<lambda>b. Inr 3),
      os_Stat = (\<lambda>path. None),
      context_AddInitScript = (\<lambda>c path. None),
      context_NewPage = (\<lambda>c. Inr 4),
      page_Goto = (\<lambda>g url. None),
      context_Cookies = (\<lambda>c. Inr []),
      page_Evaluate = (\<lambda>g js arg.
         if js = probe_js then Inr (ABool True)
         else Inr (AMap [(''X-s'', AString ''abc''), (''X-t'', AString ''123'')])),
      json_Marshal = (\<lambda>v. Inr ''null''),
      page_Close = (\<lambda>g. None),
      context_Close = (\<lambda>c. None),
      browser_Close = (\<lambda>b. None),
      playwright_Stop = (\<lambda>p. None),
      gin_ShouldBindJSON = (\<lambda>raw.
         if raw = [] then Inl (External ''EOF'')
         else Inr \<lparr>URI = ''/api/foo'', Data = ANil, A1 = [], WebSession = []\<rparr>)\<rparr>"

text \<open>The in-page function answers an object without \<open>X-t\<close> whose \<open>X-s\<close> is a number.\<close>

definition partial_map_env :: env where
  "partial_map_env =
     ok_env\<lparr>page_Evaluate := (\<lambda>g js arg.
        if js = probe_js then Inr (ABool True) else Inr (AMap [(''X-s'', AInt 7)]))\<rparr>"

text \<open>The in-page function answers a string.\<close>

definition non_object_env :: env where
  "non_object_env =
     ok_env\<lparr>page_Evaluate := (\<lambda>g js arg.
        if js = probe_js then Inr (ABool True) else Inr (AString ''abc''))\<rparr>"

text \<open>\<open>playwright.Run\<close> fails.\<close>

definition run_fails_env :: env where
  "run_fails_env = ok_env\<lparr>playwright_Run := Inl (External ''boom'')\<rparr>"

text \<open>The navigation to the home page fails, after the page has been opened.\<close>

definition goto_fails_env :: env where
  "goto_fails_env = ok_env\<lparr>page_Goto := (\<lambda>g url. Some (External ''timeout''))\<rparr>"

text \<open>Closing the context and closing the browser both fail.\<close>

definition close_fails_env :: env where
  "close_fails_env =
     ok_env\<lparr>context_Close := (\<lambda>c. Some (External ''context gone'')),
            browser_Close := (\<lambda>b. Some (External ''browser gone''))\<rparr>"

text \<open>The session \<open>NewSigner\<close> returns in \<open>ok_env\<close>.\<close>

definition ok_Signer :: Signer where
  "ok_Signer =
     \<lparr>pw = Some 1, browser = Some 2, context' = Some 3, page = Some 4,
      stealthJS = ''stealth.min.js'', initOnce = True, initErr = None\<rparr>"

text \<open>A session whose initialization stopped when creating the context failed.\<close>

definition partial_Signer :: Signer where
  "partial_Signer =
     \<lparr>pw = Some 1, browser = Some 2, context' = None, page = None,
      stealthJS = ''stealth.min.js'', initOnce = True,
      initErr = Some (Errorf msg_context_failed (External ''boom''))\<rparr>"

definition foo_params :: SignParams where
  "foo_params = \<lparr>URI = ''/api/foo'', Data = ANil, A1 = [], WebSession = []\<rparr>"

section \<open>Properties\<close>

subsection \<open>Facts about the concrete sessions\<close>

lemma js_neq: "sign_js \<noteq> probe_js"
  by (simp add: sign_js_def probe_js_def)

lemma ok_env_probe: "page_Evaluate ok_env g probe_js arg = Inr (ABool True)"
  by (simp add: ok_env_def)

lemma ok_env_sign:
  "page_Evaluate ok_env g sign_js arg =
     Inr (AMap [(''X-s'', AString ''abc''), (''X-t'', AString ''123'')])"
  by (simp add: ok_env_def js_neq)

lemma ok_env_marshal: "json_Marshal ok_env v = Inr ''null''"
  by (simp add: ok_env_def)

lemma ok_env_bind:
  "gin_ShouldBindJSON ok_env [] = Inl (External ''EOF'')"
  "gin_ShouldBindJSON ok_env ''{}'' = Inr foo_params"
  by (simp_all add: ok_env_def foo_params_def)

lemma partial_map_env_probe:
  "page_Evaluate partial_map_env g probe_js arg = Inr (ABool True)"
  by (simp add: partial_map_env_def)

lemma partial_map_env_sign:
  "page_Evaluate partial_map_env g sign_js arg = Inr (AMap [(''X-s'', AInt 7)])"
  by (simp add: partial_map_env_def js_neq)

lemma partial_map_env_marshal: "json_Marshal partial_map_env v = Inr ''null''"
  by (simp add: partial_map_env_def ok_env_def)

lemma non_object_env_probe:
  "page_Evaluate non_object_env g probe_js arg = Inr (ABool True)"
  by (simp add: non_object_env_def)

lemma non_object_env_sign:
  "page_Evaluate non_object_env g sign_js arg = Inr (AString ''abc'')"
  by (simp add: non_object_env_def js_neq)

lemma non_object_env_marshal: "json_Marshal non_object_env v = Inr ''null''"
  by (simp add: non_object_env_def ok_env_def)

lemma ok_Signer_handles:
  "page ok_Signer = Some 4" "context' ok_Signer = Some 3"
  "browser ok_Signer = Some 2" "pw ok_Signer = Some 1"
  by (simp_all add: ok_Signer_def)

lemma foo_params_sel: "URI foo_params = ''/api/foo''" "Data foo_params = ANil"
  by (simp_all add: foo_params_def)

subsection \<open>Sign, once the in-page function has answered\<close>

lemma Sign_evaluated:
  assumes "page s = Some g"
    and "page_Evaluate E g probe_js ANil = Inr (ABool True)"
    and "json_Marshal E (Data params) = Inr dataJSON"
    and "page_Evaluate E g sign_js (ASlice [AString (URI params), AString dataJSON]) = Inr res"
  shows "Sign E (Some s) params =
     ((case res of
         AMap m \<Rightarrow> Return (Inr \<lparr>XS = string_field m ''X-s'', XT = string_field m ''X-t''\<rparr>)
       | _ \<Rightarrow> Return (Inl (ErrorsNew msg_assert_failed))),
      [PageEvaluate g probe_js ANil,
       PageEvaluate g sign_js (ASlice [AString (URI params), AString dataJSON])])"
  using assms by (simp add: Sign_def Let_def split: go_any.splits)

lemma Sign_ok:
  "Sign ok_env (Some ok_Signer) foo_params =
     (Return (Inr \<lparr>XS = ''abc'', XT = ''123''\<rparr>),
      [PageEvaluate 4 probe_js ANil,
       PageEvaluate 4 sign_js (ASlice [AString ''/api/foo'', AString ''null''])])"
  by (simp add: Sign_evaluated [OF ok_Signer_handles(1) ok_env_probe ok_env_marshal ok_env_sign]
        foo_params_sel string_field_def)

lemma Sign_zero:
  "Sign ok_env (Some zero_Signer) foo_params = (Return (Inl (ErrorsNew msg_page_uninit)), [])"
  by (simp add: Sign_def zero_Signer_def)

subsection \<open>Mutual exclusion of Sign calls\<close>

lemma Sign_calls:
  assumes "page s = Some g"
  shows "\<exists>rest. snd (Sign E (Some s) q) = PageEvaluate g probe_js ANil # rest"
  using assms by (simp add: Sign_def Let_def split: sum.splits go_any.splits)

lemma Sign_calls_evaluated:
  assumes "page s = Some g"
    and "page_Evaluate E g probe_js ANil = Inr (ABool True)"
    and "json_Marshal E (Data p) = Inr dataJSON"
  shows "snd (Sign E (Some s) p) =
     [PageEvaluate g probe_js ANil,
      PageEvaluate g sign_js (ASlice [AString (URI p), AString dataJSON])]"
  using assms by (simp add: Sign_def Let_def split: sum.splits go_any.splits)

lemma not_serialized_return:
  assumes "i \<noteq> j"
  shows "\<not> serialized ((i, a) # (j, b) # (i, c) # rest)"
proof -
  have "i \<in> set (remdups_adj (i # map fst rest))" by simp
  then show ?thesis using assms by (simp add: serialized_def)
qed

text \<open>
  C1, as the specification states it, fails: with two goroutines signing on the
  session of \<open>ok_env\<close>, the page can see the probe of the second call between the
  probe and the evaluation of the first, and then two calls are in flight at once.
\<close>

theorem Sign_not_exclusive_counterexample:
  "[(0, PageEvaluate 4 probe_js ANil),
    (1, PageEvaluate 4 probe_js ANil),
    (0, PageEvaluate 4 sign_js (ASlice [AString ''/api/foo'', AString ''null''])),
    (1, PageEvaluate 4 sign_js (ASlice [AString ''/api/foo'', AString ''null'']))]
     \<in> concurrent_logs ok_env (Some ok_Signer) foo_params foo_params
   \<and> \<not> serialized
      [(0, PageEvaluate 4 probe_js ANil),
       (1, PageEvaluate 4 probe_js ANil),
       (0, PageEvaluate 4 sign_js (ASlice [AString ''/api/foo'', AString ''null''])),
       (1, PageEvaluate 4 sign_js (ASlice [AString ''/api/foo'', AString ''null'']))]"
  by (simp add: concurrent_logs_def Sign_ok tag_def serialized_def)

text \<open>
  C1, amended: the engine takes no lock, so it enforces no mutual exclusion between
  \<open>Sign\<close> calls. For every pair of concurrent calls on a \<open>Signer\<close> that has a page,
  where the probe answers true and the payload of the first call serializes, the first
  call makes its two page calls, probe then evaluation, the second call begins with its
  probe, and the page can see the probe of the second call between the probe and the
  evaluation of the first: two calls are then in flight at the same instant.
\<close>

theorem Sign_calls_can_overlap:
  assumes "page s = Some g"
    and "page_Evaluate E g probe_js ANil = Inr (ABool True)"
    and "json_Marshal E (Data p) = Inr dataJSON"
  shows "\<exists>rest.
      snd (Sign E (Some s) p) =
        [PageEvaluate g probe_js ANil,
         PageEvaluate g sign_js (ASlice [AString (URI p), AString dataJSON])]
    \<and> snd (Sign E (Some s) q) = PageEvaluate g probe_js ANil # rest
    \<and> (0, PageEvaluate g probe_js ANil)
        # (1, PageEvaluate g probe_js ANil)
        # (0, PageEvaluate g sign_js (ASlice [AString (URI p), AString dataJSON]))
        # tag 1 rest
          \<in> concurrent_logs E (Some s) p q
    \<and> \<not> serialized
         ((0, PageEvaluate g probe_js ANil)
          # (1, PageEvaluate g probe_js ANil)
          # (0, PageEvaluate g sign_js (ASlice [AString (URI p), AString dataJSON]))
          # tag 1 rest)"
proof -
  obtain rest where q: "snd (Sign E (Some s) q) = PageEvaluate g probe_js ANil # rest"
    using Sign_calls [OF assms(1)] by blast
  note p = Sign_calls_evaluated [OF assms]
  have "(0, PageEvaluate g probe_js ANil)
        # (1, PageEvaluate g probe_js ANil)
        # (0, PageEvaluate g sign_js (ASlice [AString (URI p), AString dataJSON]))
        # tag 1 rest
          \<in> concurrent_logs E (Some s) p q"
    by (simp add: concurrent_logs_def p q tag_def Cons_in_shuffles_iff)
  then show ?thesis
    using p q not_serialized_return [of 0 1] by auto
qed

theorem Sign_calls_can_overlap_witness:
  "[(0, PageEvaluate 4 probe_js ANil),
    (1, PageEvaluate 4 probe_js ANil),
    (0, PageEvaluate 4 sign_js (ASlice [AString ''/api/foo'', AString ''null''])),
    (1, PageEvaluate 4 sign_js (ASlice [AString ''/api/bar'', AString ''null'']))]
     \<in> concurrent_logs ok_env (Some ok_Signer) foo_params (foo_params\<lparr>URI := ''/api/bar''\<rparr>)
   \<and> \<not> serialized
      [(0, PageEvaluate 4 probe_js ANil),
       (1, PageEvaluate 4 probe_js ANil),
       (0, PageEvaluate 4 sign_js (ASlice [AString ''/api/foo'', AString ''null''])),
       (1, PageEvaluate 4 sign_js (ASlice [AString ''/api/bar'', AString ''null'']))]"
proof -
  have "snd (Sign ok_env (Some ok_Signer) (foo_params\<lparr>URI := ''/api/bar''\<rparr>)) =
     [PageEvaluate 4 probe_js ANil,
      PageEvaluate 4 sign_js (ASlice [AString ''/api/bar'', AString ''null''])]"
    by (simp add: Sign_calls_evaluated [OF ok_Signer_handles(1) ok_env_probe ok_env_marshal])
  then show ?thesis
    using Sign_calls_can_overlap [OF ok_Signer_handles(1) ok_env_probe ok_env_marshal,
            of foo_params "foo_params\<lparr>URI := ''/api/bar''\<rparr>"]
    by (auto simp: foo_params_sel tag_def)
qed

subsection \<open>Initialization\<close>

lemma launches_init_body: "launches (snd (init_body E path s)) = 1"
  by (simp add: init_body_def launches_def Let_def split: sum.splits option.splits)

lemma launches_NewSigner: "launches (snd (NewSigner E path)) = 1"
proof -
  obtain s t where st: "init_body E path zero_Signer = (s, t)"
    by (cases "init_body E path zero_Signer")
  then have "launches t = 1"
    using launches_init_body [of E path zero_Signer] by simp
  moreover have "\<not> initOnce zero_Signer"
    by (simp add: zero_Signer_def)
  ultimately show ?thesis
    by (simp add: NewSigner_def once_Do_def st)
qed

lemma launches_append: "launches (t @ u) = launches t + launches u"
  by (induction t) (simp_all add: launches_def)

lemma NewSigner_ok:
  "NewSigner ok_env ''stealth.min.js'' =
     ((Some ok_Signer, None),
      [PlaywrightRun, ChromiumLaunch 1, BrowserNewContext 2,
       ContextAddInitScript 3 ''stealth.min.js'', ContextNewPage 3,
       PageGoto 4 home_url, ContextCookies 3])"
  by (simp add: NewSigner_def once_Do_def init_body_def ok_env_def zero_Signer_def ok_Signer_def)

lemma NewSigner_run_fails:
  "NewSigner run_fails_env ''stealth.min.js'' =
     ((None, Some (Errorf msg_run_failed (External ''boom''))), [PlaywrightRun])"
  by (simp add: NewSigner_def once_Do_def init_body_def run_fails_env_def ok_env_def
        zero_Signer_def)

lemma NewSigner_Run_fails:
  assumes "playwright_Run E = Inl e"
  shows "NewSigner E path = ((None, Some (Errorf msg_run_failed e)), [PlaywrightRun])"
  using assms by (simp add: NewSigner_def once_Do_def init_body_def zero_Signer_def)

lemma NewSigner_Launch_fails:
  assumes "playwright_Run E = Inr p" and "chromium_Launch E p = Inl e"
  shows "NewSigner E path =
     ((None, Some (Errorf msg_launch_failed e)), [PlaywrightRun, ChromiumLaunch p])"
  using assms by (simp add: NewSigner_def once_Do_def init_body_def zero_Signer_def)

lemma NewSigner_NewContext_fails:
  assumes "playwright_Run E = Inr p" and "chromium_Launch E p = Inr b"
    and "browser_NewContext E b = Inl e"
  shows "NewSigner E path =
     ((None, Some (Errorf msg_context_failed e)),
      [PlaywrightRun, ChromiumLaunch p, BrowserNewContext b])"
  using assms by (simp add: NewSigner_def once_Do_def init_body_def zero_Signer_def)

lemma NewSigner_Stat_fails:
  assumes "playwright_Run E = Inr p" and "chromium_Launch E p = Inr b"
    and "browser_NewContext E b = Inr c" and "os_Stat E path = Some e"
  shows "NewSigner E path =
     ((None, Some (Errorf msg_stealth_missing e)),
      [PlaywrightRun, ChromiumLaunch p, BrowserNewContext b])"
  using assms by (simp add: NewSigner_def once_Do_def init_body_def zero_Signer_def)

lemma NewSigner_AddInitScript_fails:
  assumes "playwright_Run E = Inr p" and "chromium_Launch E p = Inr b"
    and "browser_NewContext E b = Inr c" and "os_Stat E path = None"
    and "context_AddInitScript E c path = Some e"
  shows "NewSigner E path =
     ((None, Some (Errorf msg_inject_failed e)),
      [PlaywrightRun, ChromiumLaunch p, BrowserNewContext b, ContextAddInitScript c path])"
  using assms by (simp add: NewSigner_def once_Do_def init_body_def zero_Signer_def)

lemma NewSigner_NewPage_fails:
  assumes "playwright_Run E = Inr p" and "chromium_Launch E p = Inr b"
    and "browser_NewContext E b = Inr c" and "os_Stat E path = None"
    and "context_AddInitScript E c path = None" and "context_NewPage E c = Inl e"
  shows "NewSigner E path =
     ((None, Some (Errorf msg_newpage_failed e)),
      [PlaywrightRun, ChromiumLaunch p, BrowserNewContext b, ContextAddInitScript c path,
       ContextNewPage c])"
  using assms by (simp add: NewSigner_def once_Do_def init_body_def zero_Signer_def)

lemma NewSigner_Goto_fails:
  assumes "playwright_Run E = Inr p" and "chromium_Launch E p = Inr b"
    and "browser_NewContext E b = Inr c" and "os_Stat E path = None"
    and "context_AddInitScript E c path = None" and "context_NewPage E c = Inr g"
    and "page_Goto E g home_url = Some e"
  shows "NewSigner E path =
     ((None, Some (Errorf msg_goto_failed e)),
      [PlaywrightRun, ChromiumLaunch p, BrowserNewContext b, ContextAddInitScript c path,
       ContextNewPage c, PageGoto g home_url])"
  using assms by (simp add: NewSigner_def once_Do_def init_body_def zero_Signer_def)

lemma NewSigner_succeeds:
  assumes "playwright_Run E = Inr p" and "chromium_Launch E p = Inr b"
    and "browser_NewContext E b = Inr c" and "os_Stat E path = None"
    and "context_AddInitScript E c path = None" and "context_NewPage E c = Inr g"
    and "page_Goto E g home_url = None"
  shows "NewSigner E path =
     ((Some \<lparr>pw = Some p, browser = Some b, context' = Some c, page = Some g,
             stealthJS = path, initOnce = True, initErr = None\<rparr>, None),
      [PlaywrightRun, ChromiumLaunch p, BrowserNewContext b, ContextAddInitScript c path,
       ContextNewPage c, PageGoto g home_url, ContextCookies c])"
  using assms by (simp add: NewSigner_def once_Do_def init_body_def zero_Signer_def)

lemma NewSigner_calls_results:
  "fst (NewSigner_calls cs) = map (\<lambda>(E, path). fst (NewSigner E path)) cs"
  by (induction cs) (auto split: prod.splits)

lemma NewSigner_calls_trace:
  "snd (NewSigner_calls cs) = concat (map (\<lambda>(E, path). snd (NewSigner E path)) cs)"
  by (induction cs) (auto split: prod.splits)

lemma launches_NewSigner_calls: "launches (snd (NewSigner_calls cs)) = length cs"
proof (induction cs)
  case Nil
  show ?case by (simp add: launches_def)
next
  case (Cons c cs)
  obtain E path where c: "c = (E, path)" by (cases c)
  obtain r t where rt: "NewSigner E path = (r, t)" by (cases "NewSigner E path")
  obtain rs ts where rts: "NewSigner_calls cs = (rs, ts)" by (cases "NewSigner_calls cs")
  have "launches t = 1"
    using launches_NewSigner [of E path] by (simp add: rt)
  then show ?case
    using Cons by (simp add: c rt rts launches_append)
qed

text \<open>
  C2, as the specification states it, fails: two calls to \<open>NewSigner\<close> run two launch
  sequences, since each call guards a \<open>Signer\<close> it has just created; and when the first
  launch fails and the second succeeds the two callers observe different outcomes.
\<close>

theorem NewSigner_not_once_counterexample:
  "launches (snd (NewSigner_calls [(ok_env, ''stealth.min.js''), (ok_env, ''stealth.min.js'')])) = 2
   \<and> fst (NewSigner_calls [(run_fails_env, ''stealth.min.js''), (ok_env, ''stealth.min.js'')])
       = [(None, Some (Errorf msg_run_failed (External ''boom''))), (Some ok_Signer, None)]"
  by (simp add: NewSigner_ok NewSigner_run_fails launches_def)

text \<open>
  C2, amended: initialization runs once per call to \<open>NewSigner\<close>, not once per
  process. For every collection of calls there are as many launch sequences as calls,
  each call running its own and each caller observing the outcome of its own: when a
  stage fails, no \<open>Signer\<close> and the error of that first failing stage, the launch
  having stopped there; when the seven stages succeed, a \<open>Signer\<close> holding the four
  handles and no error.
\<close>

theorem NewSigner_each_call_launches:
  "launches (snd (NewSigner_calls cs)) = length cs
   \<and> fst (NewSigner_calls cs) = map (\<lambda>(E, path). fst (NewSigner E path)) cs
   \<and> snd (NewSigner_calls cs) = concat (map (\<lambda>(E, path). snd (NewSigner E path)) cs)
   \<and> (\<forall>e. playwright_Run E = Inl e \<longrightarrow>
         NewSigner E path = ((None, Some (Errorf msg_run_failed e)), [PlaywrightRun]))
   \<and> (\<forall>p e. playwright_Run E = Inr p \<and> chromium_Launch E p = Inl e \<longrightarrow>
         NewSigner E path =
           ((None, Some (Errorf msg_launch_failed e)), [PlaywrightRun, ChromiumLaunch p]))
   \<and> (\<forall>p b e. playwright_Run E = Inr p \<and> chromium_Launch E p = Inr b
           \<and> browser_NewContext E b = Inl e \<longrightarrow>
         NewSigner E path =
           ((None, Some (Errorf msg_context_failed e)),
            [PlaywrightRun, ChromiumLaunch p, BrowserNewContext b]))
   \<and> (\<forall>p b c e. playwright_Run E = Inr p \<and> chromium_Launch E p = Inr b
           \<and> browser_NewContext E b = Inr c \<and> os_Stat E path = Some e \<longrightarrow>
         NewSigner E path =
           ((None, Some (Errorf msg_stealth_missing e)),
            [PlaywrightRun, ChromiumLaunch p, BrowserNewContext b]))
   \<and> (\<forall>p b c e. playwright_Run E = Inr p \<and> chromium_Launch E p = Inr b
           \<and> browser_NewContext E b = Inr c \<and> os_Stat E path = None
           \<and> context_AddInitScript E c path = Some e \<longrightarrow>
         NewSigner E path =
           ((None, Some (Errorf msg_inject_failed e)),
            [PlaywrightRun, ChromiumLaunch p, BrowserNewContext b,
             ContextAddInitScript c path]))
   \<and> (\<forall>p b c e. playwright_Run E = Inr p \<and> chromium_Launch E p = Inr b
           \<and> browser_NewContext E b = Inr c \<and> os_Stat E path = None
           \<and> context_AddInitScript E c path = None \<and> context_NewPage E c = Inl e \<longrightarrow>
         NewSigner E path =
           ((None, Some (Errorf msg_newpage_failed e)),
            [PlaywrightRun, ChromiumLaunch p, BrowserNewContext b,
             ContextAddInitScript c path, ContextNewPage c]))
   \<and> (\<forall>p b c g e. playwright_Run E = Inr p \<and> chromium_Launch E p = Inr b
           \<and> browser_NewContext E b = Inr c \<and> os_Stat E path = None
           \<and> context_AddInitScript E c path = None \<and> context_NewPage E c = Inr g
           \<and> page_Goto E g home_url = Some e \<longrightarrow>
         NewSigner E path =
           ((None, Some (Errorf msg_goto_failed e)),
            [PlaywrightRun, ChromiumLaunch p, BrowserNewContext b,
             ContextAddInitScript c path, ContextNewPage c, PageGoto g home_url]))
   \<and> (\<forall>p b c g. playwright_Run E = Inr p \<and> chromium_Launch E p = Inr b
           \<and> browser_NewContext E b = Inr c \<and> os_Stat E path = None
           \<and> context_AddInitScript E c path = None \<and> context_NewPage E c = Inr g
           \<and> page_Goto E g home_url = None \<longrightarrow>
         NewSigner E path =
           ((Some \<lparr>pw = Some p, browser = Some b, context' = Some c, page = Some g,
                   stealthJS = path, initOnce = True, initErr = None\<rparr>, None),
            [PlaywrightRun, ChromiumLaunch p, BrowserNewContext b,
             ContextAddInitScript c path, ContextNewPage c, PageGoto g home_url,
             ContextCookies c]))"
  apply (intro conjI allI impI)
            apply (rule launches_NewSigner_calls)
           apply (rule NewSigner_calls_results)
          apply (rule NewSigner_calls_trace)
         apply (erule NewSigner_Run_fails)
        apply (elim conjE, erule (1) NewSigner_Launch_fails)
       apply (elim conjE, erule (2) NewSigner_NewContext_fails)
      apply (elim conjE, erule (3) NewSigner_Stat_fails)
     apply (elim conjE, erule (4) NewSigner_AddInitScript_fails)
    apply (elim conjE, erule (5) NewSigner_NewPage_fails)
   apply (elim conjE, erule (6) NewSigner_Goto_fails)
  apply (elim conjE, erule (6) NewSigner_succeeds)
  done

lemma goto_fails_env_stages:
  "playwright_Run goto_fails_env = Inr 1"
  "chromium_Launch goto_fails_env 1 = Inr 2"
  "browser_NewContext goto_fails_env 2 = Inr 3"
  "os_Stat goto_fails_env ''stealth.min.js'' = None"
  "context_AddInitScript goto_fails_env 3 ''stealth.min.js'' = None"
  "context_NewPage goto_fails_env 3 = Inr 4"
  "page_Goto goto_fails_env 4 home_url = Some (External ''timeout'')"
  by (simp_all add: goto_fails_env_def ok_env_def)

lemma ok_env_stages:
  "playwright_Run ok_env = Inr 1"
  "chromium_Launch ok_env 1 = Inr 2"
  "browser_NewContext ok_env 2 = Inr 3"
  "os_Stat ok_env ''stealth.min.js'' = None"
  "context_AddInitScript ok_env 3 ''stealth.min.js'' = None"
  "context_NewPage ok_env 3 = Inr 4"
  "page_Goto ok_env 4 home_url = None"
  by (simp_all add: ok_env_def)

lemma run_fails_env_stage: "playwright_Run run_fails_env = Inl (External ''boom'')"
  by (simp add: run_fails_env_def)

theorem NewSigner_each_call_launches_witness:
  "launches (snd (NewSigner_calls
      [(run_fails_env, ''stealth.min.js''), (goto_fails_env, ''stealth.min.js''),
       (ok_env, ''stealth.min.js'')])) = 3
   \<and> fst (NewSigner_calls
      [(run_fails_env, ''stealth.min.js''), (goto_fails_env, ''stealth.min.js''),
       (ok_env, ''stealth.min.js'')])
     = [(None, Some (Errorf msg_run_failed (External ''boom''))),
        (None, Some (Errorf msg_goto_failed (External ''timeout''))),
        (Some ok_Signer, None)]"
proof -
  note calls = NewSigner_each_call_launches
      [of "[(run_fails_env, ''stealth.min.js''), (goto_fails_env, ''stealth.min.js''),
            (ok_env, ''stealth.min.js'')]" run_fails_env "''stealth.min.js''"]
  have r1: "NewSigner run_fails_env ''stealth.min.js'' =
      ((None, Some (Errorf msg_run_failed (External ''boom''))), [PlaywrightRun])"
    by (rule calls [THEN conjunct2, THEN conjunct2, THEN conjunct2, THEN conjunct1, rule_format]) (rule run_fails_env_stage)
  have r2: "NewSigner goto_fails_env ''stealth.min.js'' =
      ((None, Some (Errorf msg_goto_failed (External ''timeout''))),
       [PlaywrightRun, ChromiumLaunch 1, BrowserNewContext 2,
        ContextAddInitScript 3 ''stealth.min.js'', ContextNewPage 3, PageGoto 4 home_url])"
    by (rule NewSigner_each_call_launches
          [of "[]" goto_fails_env "''stealth.min.js''", THEN conjunct2, THEN conjunct2, THEN conjunct2, THEN conjunct2, THEN conjunct2, THEN conjunct2, THEN conjunct2, THEN conjunct2, THEN conjunct2, THEN conjunct1, rule_format])
       (intro conjI goto_fails_env_stages)
  have r3: "NewSigner ok_env ''stealth.min.js'' =
      ((Some \<lparr>pw = Some 1, browser = Some 2, context' = Some 3, page = Some 4,
              stealthJS = ''stealth.min.js'', initOnce = True, initErr = None\<rparr>, None),
       [PlaywrightRun, ChromiumLaunch 1, BrowserNewContext 2,
        ContextAddInitScript 3 ''stealth.min.js'', ContextNewPage 3, PageGoto 4 home_url,
        ContextCookies 3])"
    by (rule NewSigner_each_call_launches
          [of "[]" ok_env "''stealth.min.js''", THEN conjunct2, THEN conjunct2, THEN conjunct2, THEN conjunct2, THEN conjunct2, THEN conjunct2, THEN conjunct2, THEN conjunct2, THEN conjunct2, THEN conjunct2, rule_format])
       (intro conjI ok_env_stages)
  have "launches (snd (NewSigner_calls
      [(run_fails_env, ''stealth.min.js''), (goto_fails_env, ''stealth.min.js''),
       (ok_env, ''stealth.min.js'')])) = 3"
    unfolding calls [THEN conjunct1] by simp
  moreover have "fst (NewSigner_calls
      [(run_fails_env, ''stealth.min.js''), (goto_fails_env, ''stealth.min.js''),
       (ok_env, ''stealth.min.js'')])
     = [(None, Some (Errorf msg_run_failed (External ''boom''))),
        (None, Some (Errorf msg_goto_failed (External ''timeout''))),
        (Some ok_Signer, None)]"
    unfolding calls [THEN conjunct2, THEN conjunct1]
    by (simp add: r1 r2 r3 ok_Signer_def)
  ultimately show ?thesis by (rule conjI)
qed

text \<open>
  C4, as the specification states it, fails: when \<open>playwright.Run\<close> fails,
  \<open>NewSigner\<close> returns the error and a nil \<open>Signer\<close>, and a \<open>Sign\<close> call on it does
  not return an error: it panics on the nil receiver.
\<close>

theorem Sign_after_failed_init_counterexample:
  "fst (NewSigner run_fails_env ''stealth.min.js'')
     = (None, Some (Errorf msg_run_failed (External ''boom'')))
   \<and> Sign ok_env (fst (fst (NewSigner run_fails_env ''stealth.min.js''))) foo_params = (Panic, [])"
  by (simp add: NewSigner_run_fails Sign_def)

text \<open>
  C4, amended: once initialization has failed at any stage (starting the runtime,
  launching the browser, creating the context, finding the init script, registering
  it, opening the page, navigating), \<open>NewSigner\<close> returns the error of that stage and
  no \<open>Signer\<close>; every subsequent \<open>Sign\<close> call on what it returned fails immediately,
  without any page interaction, by panicking on the nil receiver. The error return
  without page interaction is that of a \<open>Signer\<close> whose page handle is nil.
\<close>

theorem Sign_after_failed_init:
  "(\<forall>e. playwright_Run E = Inl e \<longrightarrow>
       fst (NewSigner E path) = (None, Some (Errorf msg_run_failed e)))
   \<and> (\<forall>p e. playwright_Run E = Inr p \<and> chromium_Launch E p = Inl e \<longrightarrow>
       fst (NewSigner E path) = (None, Some (Errorf msg_launch_failed e)))
   \<and> (\<forall>p b e. playwright_Run E = Inr p \<and> chromium_Launch E p = Inr b
         \<and> browser_NewContext E b = Inl e \<longrightarrow>
       fst (NewSigner E path) = (None, Some (Errorf msg_context_failed e)))
   \<and> (\<forall>p b c e. playwright_Run E = Inr p \<and> chromium_Launch E p = Inr b
         \<and> browser_NewContext E b = Inr c \<and> os_Stat E path = Some e \<longrightarrow>
       fst (NewSigner E path) = (None, Some (Errorf msg_stealth_missing e)))
   \<and> (\<forall>p b c e. playwright_Run E = Inr p \<and> chromium_Launch E p = Inr b
         \<and> browser_NewContext E b = Inr c \<and> os_Stat E path = None
         \<and> context_AddInitScript E c path = Some e \<longrightarrow>
       fst (NewSigner E path) = (None, Some (Errorf msg_inject_failed e)))
   \<and> (\<forall>p b c e. playwright_Run E = Inr p \<and> chromium_Launch E p = Inr b
         \<and> browser_NewContext E b = Inr c \<and> os_Stat E path = None
         \<and> context_AddInitScript E c path = None \<and> context_NewPage E c = Inl e \<longrightarrow>
       fst (NewSigner E path) = (None, Some (Errorf msg_newpage_failed e)))
   \<and> (\<forall>p b c g e. playwright_Run E = Inr p \<and> chromium_Launch E p = Inr b
         \<and> browser_NewContext E b = Inr c \<and> os_Stat E path = None
         \<and> context_AddInitScript E c path = None \<and> context_NewPage E c = Inr g
         \<and> page_Goto E g home_url = Some e \<longrightarrow>
       fst (NewSigner E path) = (None, Some (Errorf msg_goto_failed e)))
   \<and> (\<forall>err. snd (fst (NewSigner E path)) = Some err \<longrightarrow>
         fst (fst (NewSigner E path)) = None
         \<and> Sign E' (fst (fst (NewSigner E path))) params = (Panic, []))
   \<and> (\<forall>s. page s = None \<longrightarrow>
         Sign E' (Some s) params = (Return (Inl (ErrorsNew msg_page_uninit)), []))"
proof -
  have nil: "fst (fst (NewSigner E path)) = None"
    if "snd (fst (NewSigner E path)) = Some err" for err
  proof -
    obtain s t where st: "once_Do (init_body E path) zero_Signer = (s, t)"
      by (cases "once_Do (init_body E path) zero_Signer")
    show ?thesis
      using that by (simp add: NewSigner_def st split: if_splits)
  qed
  have panic: "Sign E' None params = (Panic, [])"
    by (simp add: Sign_def)
  have guard: "Sign E' (Some s) params = (Return (Inl (ErrorsNew msg_page_uninit)), [])"
    if "page s = None" for s
    using that by (simp add: Sign_def)
  show ?thesis
    using nil panic guard
    by (auto simp: NewSigner_Run_fails NewSigner_Launch_fails NewSigner_NewContext_fails
          NewSigner_Stat_fails NewSigner_AddInitScript_fails NewSigner_NewPage_fails
          NewSigner_Goto_fails)
qed

theorem Sign_after_failed_init_witness:
  "fst (NewSigner goto_fails_env ''stealth.min.js'')
     = (None, Some (Errorf msg_goto_failed (External ''timeout'')))
   \<and> Sign ok_env (fst (fst (NewSigner goto_fails_env ''stealth.min.js''))) foo_params
     = (Panic, [])
   \<and> page zero_Signer = None
   \<and> Sign ok_env (Some zero_Signer) foo_params = (Return (Inl (ErrorsNew msg_page_uninit)), [])"
proof -
  have z: "page zero_Signer = None" by (simp add: zero_Signer_def)
  note t = Sign_after_failed_init [of goto_fails_env "''stealth.min.js''" ok_env foo_params]
  have r: "fst (NewSigner goto_fails_env ''stealth.min.js'')
     = (None, Some (Errorf msg_goto_failed (External ''timeout'')))"
    by (rule t [THEN conjunct2, THEN conjunct2, THEN conjunct2, THEN conjunct2, THEN conjunct2, THEN conjunct2, THEN conjunct1, rule_format, of 1 2 3 4])
       (intro conjI goto_fails_env_stages)
  then have "snd (fst (NewSigner goto_fails_env ''stealth.min.js''))
     = Some (Errorf msg_goto_failed (External ''timeout''))"
    by simp
  then have "Sign ok_env (fst (fst (NewSigner goto_fails_env ''stealth.min.js''))) foo_params
     = (Panic, [])"
    using t by blast
  moreover have "Sign ok_env (Some zero_Signer) foo_params
     = (Return (Inl (ErrorsNew msg_page_uninit)), [])"
    using t z by blast
  ultimately show ?thesis using r z by simp
qed

subsection \<open>The result of Sign\<close>

text \<open>
  C6: whenever the in-page function returns the mapping
  \<open>{"X-s": "abc", "X-t": "123"}\<close>, \<open>Sign\<close> succeeds with x-s \<open>abc\<close> and x-t \<open>123\<close>;
  whenever it returns a value that is not a key/value object, \<open>Sign\<close> fails with the
  result-shape error. The in-page function returns when the page handle is not nil, the
  probe answers true, the payload is serialized and the evaluation answers.
\<close>

theorem Sign_result_extraction:
  assumes "page s = Some g"
    and "page_Evaluate E g probe_js ANil = Inr (ABool True)"
    and "json_Marshal E (Data params) = Inr dataJSON"
    and "page_Evaluate E g sign_js (ASlice [AString (URI params), AString dataJSON]) = Inr res"
  shows "(\<forall>m. res = AMap m \<and> map_of m = [''X-s'' \<mapsto> AString ''abc'', ''X-t'' \<mapsto> AString ''123'']
            \<longrightarrow> fst (Sign E (Some s) params) = Return (Inr \<lparr>XS = ''abc'', XT = ''123''\<rparr>))
       \<and> ((\<forall>m. res \<noteq> AMap m)
            \<longrightarrow> fst (Sign E (Some s) params) = Return (Inl (ErrorsNew msg_assert_failed)))"
proof (intro conjI allI impI)
  fix m
  assume "res = AMap m \<and> map_of m = [''X-s'' \<mapsto> AString ''abc'', ''X-t'' \<mapsto> AString ''123'']"
  then show "fst (Sign E (Some s) params) = Return (Inr \<lparr>XS = ''abc'', XT = ''123''\<rparr>)"
    by (simp add: Sign_evaluated [OF assms] string_field_def)
next
  assume "\<forall>m. res \<noteq> AMap m"
  then show "fst (Sign E (Some s) params) = Return (Inl (ErrorsNew msg_assert_failed))"
    by (cases res) (simp_all add: Sign_evaluated [OF assms])
qed

theorem Sign_result_extraction_witness:
  "fst (Sign ok_env (Some ok_Signer) foo_params) = Return (Inr \<lparr>XS = ''abc'', XT = ''123''\<rparr>)
   \<and> fst (Sign non_object_env (Some ok_Signer) foo_params)
       = Return (Inl (ErrorsNew msg_assert_failed))"
proof
  have "map_of [(''X-s'', AString ''abc''), (''X-t'', AString ''123'')]
          = [''X-s'' \<mapsto> AString ''abc'', ''X-t'' \<mapsto> AString ''123'']"
    by (rule ext) simp
  then show "fst (Sign ok_env (Some ok_Signer) foo_params)
               = Return (Inr \<lparr>XS = ''abc'', XT = ''123''\<rparr>)"
    using Sign_result_extraction
            [OF ok_Signer_handles(1) ok_env_probe ok_env_marshal, of foo_params]
    by (simp add: ok_env_sign)
next
  show "fst (Sign non_object_env (Some ok_Signer) foo_params)
          = Return (Inl (ErrorsNew msg_assert_failed))"
    using Sign_result_extraction
            [OF ok_Signer_handles(1) non_object_env_probe non_object_env_marshal, of foo_params]
    by (simp add: non_object_env_sign)
qed

text \<open>
  C3, as the specification states it, fails: when the in-page function returns an
  object in which \<open>X-s\<close> is a number and \<open>X-t\<close> is missing, \<open>Sign\<close> returns a success
  result with two empty strings, not a result-shape error.
\<close>

theorem Sign_lenient_counterexample:
  "page_Evaluate partial_map_env 4 sign_js (ASlice [AString ''/api/foo'', AString ''null''])
     = Inr (AMap [(''X-s'', AInt 7)])
   \<and> Sign partial_map_env (Some ok_Signer) foo_params
     = (Return (Inr \<lparr>XS = [], XT = []\<rparr>),
        [PageEvaluate 4 probe_js ANil,
         PageEvaluate 4 sign_js (ASlice [AString ''/api/foo'', AString ''null''])])"
  by (simp add: Sign_evaluated [OF ok_Signer_handles(1) partial_map_env_probe
                  partial_map_env_marshal partial_map_env_sign]
        partial_map_env_sign foo_params_sel string_field_def)

text \<open>
  C3, amended: for every value returned by the in-page signing function that is not a
  key/value mapping, \<open>Sign\<close> fails with the result-shape error; for every mapping,
  \<open>Sign\<close> succeeds, and a field \<open>X-s\<close> or \<open>X-t\<close> that is missing or not a string is
  returned as the empty string.
\<close>

theorem Sign_result_shape:
  assumes "page s = Some g"
    and "page_Evaluate E g probe_js ANil = Inr (ABool True)"
    and "json_Marshal E (Data params) = Inr dataJSON"
    and "page_Evaluate E g sign_js (ASlice [AString (URI params), AString dataJSON]) = Inr res"
  shows "((\<forall>m. res \<noteq> AMap m)
            \<longrightarrow> fst (Sign E (Some s) params) = Return (Inl (ErrorsNew msg_assert_failed)))
       \<and> (\<forall>m. res = AMap m
            \<longrightarrow> fst (Sign E (Some s) params) =
                 Return (Inr \<lparr>XS = (case map_of m ''X-s'' of Some (AString v) \<Rightarrow> v | _ \<Rightarrow> []),
                              XT = (case map_of m ''X-t'' of Some (AString v) \<Rightarrow> v | _ \<Rightarrow> [])\<rparr>))"
proof (intro conjI allI impI)
  assume "\<forall>m. res \<noteq> AMap m"
  then show "fst (Sign E (Some s) params) = Return (Inl (ErrorsNew msg_assert_failed))"
    by (cases res) (simp_all add: Sign_evaluated [OF assms])
next
  fix m
  assume "res = AMap m"
  then show "fst (Sign E (Some s) params) =
                 Return (Inr \<lparr>XS = (case map_of m ''X-s'' of Some (AString v) \<Rightarrow> v | _ \<Rightarrow> []),
                              XT = (case map_of m ''X-t'' of Some (AString v) \<Rightarrow> v | _ \<Rightarrow> [])\<rparr>)"
    by (simp add: Sign_evaluated [OF assms] string_field_def)
qed

theorem Sign_result_shape_witness:
  "fst (Sign non_object_env (Some ok_Signer) foo_params)
     = Return (Inl (ErrorsNew msg_assert_failed))
   \<and> fst (Sign partial_map_env (Some ok_Signer) foo_params) = Return (Inr \<lparr>XS = [], XT = []\<rparr>)
   \<and> fst (Sign ok_env (Some ok_Signer) foo_params) = Return (Inr \<lparr>XS = ''abc'', XT = ''123''\<rparr>)"
  using Sign_result_shape [OF ok_Signer_handles(1) non_object_env_probe non_object_env_marshal
          non_object_env_sign, of foo_params]
    Sign_result_shape [OF ok_Signer_handles(1) partial_map_env_probe partial_map_env_marshal
          partial_map_env_sign, of foo_params]
    Sign_result_shape [OF ok_Signer_handles(1) ok_env_probe ok_env_marshal ok_env_sign,
          of foo_params]
  by simp

text \<open>
  C9: two \<open>Sign\<close> requests that agree on \<open>uri\<close> and \<open>data\<close>, whatever their \<open>a1\<close>
  and \<open>web_session\<close>, make the same calls on the page with the same arguments and
  return the same result or the same error.
\<close>

theorem Sign_ignores_session_tokens:
  assumes "URI p = URI q" and "Data p = Data q"
  shows "Sign E sp p = Sign E sp q"
  unfolding Sign_def assms by (rule refl)

theorem Sign_ignores_session_tokens_witness:
  "Sign ok_env (Some ok_Signer) (foo_params\<lparr>A1 := ''a1-one'', WebSession := ''session-one''\<rparr>)
     = Sign ok_env (Some ok_Signer) (foo_params\<lparr>A1 := ''a1-two'', WebSession := ''session-two''\<rparr>)
   \<and> foo_params\<lparr>A1 := ''a1-one'', WebSession := ''session-one''\<rparr>
     \<noteq> foo_params\<lparr>A1 := ''a1-two'', WebSession := ''session-two''\<rparr>"
  using Sign_ignores_session_tokens
    [of "foo_params\<lparr>A1 := ''a1-one'', WebSession := ''session-one''\<rparr>"
        "foo_params\<lparr>A1 := ''a1-two'', WebSession := ''session-two''\<rparr>" ok_env "Some ok_Signer"]
  by (simp add: foo_params_def)

subsection \<open>Close\<close>

lemma release_Return:
  "release h closef ev msg (Return (firstErr, t)) =
     Return
       (case h of
          None \<Rightarrow> firstErr
        | Some x \<Rightarrow> first_error [firstErr, map_option (Errorf msg) (closef x)],
        t @ (case h of None \<Rightarrow> [] | Some x \<Rightarrow> [ev x]))"
  by (cases h; cases firstErr) (auto simp: release_def invoke_def split: option.splits)

lemma Close_returns: "\<exists>firstErr. Close E (Some s) = Return (firstErr, released s)"
  by (simp add: Close_def release_Return released_def)

lemma Close_nothing:
  assumes "page s = None" and "context' s = None" and "browser s = None" and "pw s = None"
  shows "Close E (Some s) = Return (None, [])"
  using assms by (simp add: Close_def release_Return)

text \<open>
  C7: on a session holding its four handles, \<open>Close\<close> releases page, context,
  browser and runtime in that order; every release is attempted whatever the earlier
  ones answered, and the error returned is the first one met, wrapped with the name of
  its step, or nil when every release succeeds.
\<close>

theorem Close_order_and_first_error:
  assumes "page s = Some g" and "context' s = Some c" and "browser s = Some b" and "pw s = Some p"
  shows "Close E (Some s) =
     Return
       (first_error
          [map_option (Errorf msg_close_page) (page_Close E g),
           map_option (Errorf msg_close_context) (context_Close E c),
           map_option (Errorf msg_close_browser) (browser_Close E b),
           map_option (Errorf msg_close_pw) (playwright_Stop E p)],
        [PageClose g, ContextClose c, BrowserClose b, PlaywrightStop p])"
  using assms
  by (cases "page_Close E g"; cases "context_Close E c"; cases "browser_Close E b";
      cases "playwright_Stop E p")
     (simp_all add: Close_def release_Return)

theorem Close_order_and_first_error_witness:
  "Close close_fails_env (Some ok_Signer) =
     Return (Some (Errorf msg_close_context (External ''context gone'')),
             [PageClose 4, ContextClose 3, BrowserClose 2, PlaywrightStop 1])
   \<and> Close ok_env (Some ok_Signer) =
     Return (None, [PageClose 4, ContextClose 3, BrowserClose 2, PlaywrightStop 1])"
  using Close_order_and_first_error [OF ok_Signer_handles, of close_fails_env]
    Close_order_and_first_error [OF ok_Signer_handles, of ok_env]
  by (simp add: close_fails_env_def ok_env_def)

text \<open>
  C10: on every \<open>Signer\<close>, whichever of its handles are nil, \<open>Close\<close> does not
  panic (no nil handle is dereferenced), the releases it makes are exactly those of the
  handles that are not nil, and when all four handles are nil it returns nil having
  released nothing.
\<close>

theorem Close_total_on_partial_sessions:
  "Close E (Some s) \<noteq> Panic
   \<and> (\<exists>firstErr. Close E (Some s) = Return (firstErr, released s))
   \<and> (page s = None \<and> context' s = None \<and> browser s = None \<and> pw s = None
        \<longrightarrow> Close E (Some s) = Return (None, []))"
  using Close_returns [of E s] by (auto simp: Close_nothing)

theorem Close_total_on_partial_sessions_witness:
  "Close ok_env (Some zero_Signer) = Return (None, [])
   \<and> Close ok_env (Some partial_Signer) \<noteq> Panic
   \<and> (\<exists>firstErr. Close ok_env (Some partial_Signer)
         = Return (firstErr, [BrowserClose 2, PlaywrightStop 1]))"
  using Close_total_on_partial_sessions [of ok_env zero_Signer]
    Close_total_on_partial_sessions [of ok_env partial_Signer]
  by (simp add: zero_Signer_def partial_Signer_def released_def)

subsection \<open>The gateway\<close>

text \<open>
  C8: the handler registered for \<open>POST /sign\<close> answers 400 with an object holding an
  \<open>error\<close> string when the body fails to decode; 500 with an \<open>error\<close> string when the
  body decodes and \<open>Sign\<close> returns an error; 200 with the two tokens under \<open>x-s\<close> and
  \<open>x-t\<close> when the body decodes and \<open>Sign\<close> succeeds.
\<close>

theorem sign_route_responses:
  "RegisterRoutes E signer (''POST'', ''/sign'') = Some (sign_handler E signer)
   \<and> (\<forall>err. gin_ShouldBindJSON E raw = Inl err \<longrightarrow>
         fst (sign_handler E signer raw) =
           Return \<lparr>status = 400,
                   body = AMap [(''error'', AString (msg_bind_failed @ Error err))]\<rparr>)
   \<and> (\<forall>req err. gin_ShouldBindJSON E raw = Inr req \<and> fst (Sign E signer req) = Return (Inl err) \<longrightarrow>
         fst (sign_handler E signer raw) =
           Return \<lparr>status = 500,
                   body = AMap [(''error'', AString (msg_sign_failed @ Error err))]\<rparr>)
   \<and> (\<forall>req res. gin_ShouldBindJSON E raw = Inr req \<and> fst (Sign E signer req) = Return (Inr res) \<longrightarrow>
         fst (sign_handler E signer raw) =
           Return \<lparr>status = 200,
                   body = AMap [(''x-s'', AString (XS res)), (''x-t'', AString (XT res))]\<rparr>)"
  by (auto simp: RegisterRoutes_def sign_handler_def StatusOK_def StatusBadRequest_def
        StatusInternalServerError_def SignResult_json_def split: prod.splits)

theorem sign_route_responses_witness:
  "fst (sign_handler ok_env (Some ok_Signer) []) =
     Return \<lparr>status = 400, body = AMap [(''error'', AString (msg_bind_failed @ ''EOF''))]\<rparr>
   \<and> fst (sign_handler ok_env (Some zero_Signer) ''{}'') =
     Return \<lparr>status = 500, body = AMap [(''error'', AString (msg_sign_failed @ msg_page_uninit))]\<rparr>
   \<and> fst (sign_handler ok_env (Some ok_Signer) ''{}'') =
     Return \<lparr>status = 200, body = AMap [(''x-s'', AString ''abc''), (''x-t'', AString ''123'')]\<rparr>"
  using sign_route_responses [of ok_env "Some ok_Signer" "[]"]
    sign_route_responses [of ok_env "Some zero_Signer" "''{}''"]
    sign_route_responses [of ok_env "Some ok_Signer" "''{}''"]
  by (simp add: ok_env_bind Sign_zero Sign_ok)

end
